theory Spec2Isabelle
  imports Main "HOL-Library.Sublist"
begin

section \<open>JavaScript string and array primitives used by the server\<close>

text \<open>
  Strings are \<^typ>\<open>string\<close>; the development covers ASCII text, which is what
  \<^verbatim>\<open>coredumpctl\<close> and \<^verbatim>\<open>gdb\<close> print for the fields the server reads.
  \<^verbatim>\<open>\s\<close> and \<^verbatim>\<open>trim()\<close> treat tab, line feed, vertical tab, form feed, carriage
  return and space as white space.  A value that may be \<^verbatim>\<open>undefined\<close> at run time
  is an \<^typ>\<open>'a option\<close> with \<^const>\<open>None\<close> for \<^verbatim>\<open>undefined\<close>.
\<close>

definition isSpace :: "char \<Rightarrow> bool" where
  "isSpace c \<longleftrightarrow> c = CHR 0x09 \<or> c = CHR 0x0A \<or> c = CHR 0x0B \<or> c = CHR 0x0C
     \<or> c = CHR 0x0D \<or> c = CHR '' ''"

definition trim :: "string \<Rightarrow> string" where
  \<comment> \<open>\<^verbatim>\<open>s.trim()\<close>\<close>
  "trim s = rev (dropWhile isSpace (rev (dropWhile isSpace s)))"

fun split_char_from :: "char \<Rightarrow> string \<Rightarrow> string \<Rightarrow> string list" where
  "split_char_from d cur [] = [cur]"
| "split_char_from d cur (c # cs) =
     (if c = d then cur # split_char_from d [] cs else split_char_from d (cur @ [c]) cs)"

definition split_char :: "char \<Rightarrow> string \<Rightarrow> string list" where
  \<comment> \<open>\<^verbatim>\<open>s.split(d)\<close> for a one-character separator\<close>
  "split_char d s = split_char_from d [] s"

function split_ws_from :: "string \<Rightarrow> string \<Rightarrow> string list" where
  "split_ws_from cur [] = [cur]"
| "split_ws_from cur (c # cs) =
     (if isSpace c then cur # split_ws_from [] (dropWhile isSpace cs)
      else split_ws_from (cur @ [c]) cs)"
  by pat_completeness auto
termination
  by (relation "measure (\<lambda>(cur, s). length s)")
     (auto simp: length_dropWhile_le le_imp_less_Suc)

definition split_ws :: "string \<Rightarrow> string list" where
  \<comment> \<open>\<^verbatim>\<open>s.split(/\s+/)\<close>: every maximal run of white space is one separator\<close>
  "split_ws s = split_ws_from [] s"

fun join :: "string \<Rightarrow> string list \<Rightarrow> string" where
  \<comment> \<open>\<^verbatim>\<open>xs.join(sep)\<close>\<close>
  "join sep [] = []"
| "join sep [x] = x"
| "join sep (x # y # ys) = x @ sep @ join sep (y # ys)"

fun indexOf :: "'a list \<Rightarrow> 'a \<Rightarrow> int" where
  \<comment> \<open>\<^verbatim>\<open>xs.indexOf(v)\<close>: the first position of \<open>v\<close>, or \<open>-1\<close>\<close>
  "indexOf [] v = -1"
| "indexOf (x # xs) v =
     (if x = v then 0 else (let i = indexOf xs v in if i = -1 then -1 else i + 1))"

definition at_index :: "'a list \<Rightarrow> int \<Rightarrow> 'a option" where
  \<comment> \<open>\<^verbatim>\<open>xs[i]\<close>: \<^verbatim>\<open>undefined\<close> outside the array, also at a negative index\<close>
  "at_index xs i = (if 0 \<le> i \<and> i < int (length xs) then Some (xs ! nat i) else None)"

definition slice_index :: "nat \<Rightarrow> int \<Rightarrow> nat" where
  \<comment> \<open>how \<^verbatim>\<open>slice\<close> reads a bound: a negative one counts from the end, all are clamped\<close>
  "slice_index len i = (if i < 0 then nat (max (int len + i) 0) else min (nat i) len)"

definition slice :: "'a list \<Rightarrow> int \<Rightarrow> int \<Rightarrow> 'a list" where
  \<comment> \<open>\<^verbatim>\<open>xs.slice(b, e)\<close>\<close>
  "slice xs b e =
     (let k = slice_index (length xs) b; f = slice_index (length xs) e
      in take (f - k) (drop k xs))"

definition slice_from :: "'a list \<Rightarrow> int \<Rightarrow> 'a list" where
  \<comment> \<open>\<^verbatim>\<open>xs.slice(b)\<close>\<close>
  "slice_from xs b = drop (slice_index (length xs) b) xs"

definition interpolate :: "string option \<Rightarrow> string" where
  \<comment> \<open>a string or \<^verbatim>\<open>undefined\<close> inside a template literal\<close>
  "interpolate v = (case v of None \<Rightarrow> ''undefined'' | Some s \<Rightarrow> s)"

section \<open>Records and errors\<close>

text \<open>
  \<^verbatim>\<open>interface CoreDumpInfo\<close>.  TypeScript's annotations are not checked at run time,
  so each field has the type of what the code can store there: \<open>'p\<close> is the type of
  \<^verbatim>\<open>pid\<close>, \<^verbatim>\<open>uid\<close>, \<^verbatim>\<open>gid\<close> and \<^verbatim>\<open>signal\<close>, \<open>'e\<close> that of \<^verbatim>\<open>exe\<close>.
\<close>

record ('p, 'e) CoreDumpInfo =
  id :: string
  pid :: 'p
  uid :: 'p
  gid :: 'p
  signal :: 'p
  timestamp :: string
  cmdline :: "string option"
  exe :: 'e
  hostname :: "string option"
  coredump :: "string option"

datatype ErrorCode = InvalidParams | InternalError | InvalidRequest | MethodNotFound

text \<open>
  What the code throws.  An \<open>McpError\<close> carries its code, the literal part of its
  message and, where the message interpolates the message of a caught error, that error.
\<close>

datatype exn =
  ExecaError string
  | TypeError
  | URIError
  | McpError ErrorCode string "exn option"

section \<open>The text listing (\<^verbatim>\<open>coredumpctl list --no-legend\<close>)\<close>

type_synonym row = "(string option, string) CoreDumpInfo"

definition mk_row :: "string list \<Rightarrow> int \<Rightarrow> row" where
  \<comment> \<open>the record built from the tokens once the COREFILE column is located\<close>
  "mk_row parts corefileIndex =
     (let signalIndex = corefileIndex - 1;
          gidIndex = signalIndex - 1;
          uidIndex = gidIndex - 1;
          pidIndex = uidIndex - 1;
          pid = at_index parts pidIndex;
          uid = at_index parts uidIndex;
          gid = at_index parts gidIndex;
          signal = at_index parts signalIndex;
          timestamp = join '' '' (slice parts 0 pidIndex);
          exe = join '' '' (slice_from parts (corefileIndex + 1))
      in \<lparr> id = timestamp @ ''-'' @ interpolate pid, pid = pid, uid = uid, gid = gid,
           signal = signal, timestamp = timestamp, cmdline = Some '''', exe = exe,
           hostname = Some '''', coredump = None \<rparr>)"

definition parse_line :: "string \<Rightarrow> row option" where
  \<comment> \<open>\<^verbatim>\<open>src/index.ts\<close>, the body of the loop of \<^verbatim>\<open>listCoredumps\<close>:
      \<^const>\<open>None\<close> where the code says \<^verbatim>\<open>continue\<close>\<close>
  "parse_line line =
     (if trim line = [] then None
      else let parts = split_ws (trim line) in
        if length parts < 7 then None
        else let corefileIndex =
                   (if indexOf parts ''missing'' = -1 then indexOf parts ''present''
                    else indexOf parts ''missing'') in
          if corefileIndex = -1 then None
          else Some (mk_row parts corefileIndex))"

definition parse_line_present :: "string \<Rightarrow> row option" where
  \<comment> \<open>the later revision of the loop body: \<^verbatim>\<open>parts.pop()\<close> removes the size column,
      and only \<^verbatim>\<open>present\<close> is looked for\<close>
  "parse_line_present line =
     (if trim line = [] then None
      else let parts = split_ws (trim line) in
        if length parts < 7 then None
        else let parts = butlast parts;
                 corefileIndex = indexOf parts ''present'' in
          if corefileIndex = -1 then None
          else Some (mk_row parts corefileIndex))"

type_synonym 'r registry = "string \<rightharpoonup> 'r"

fun collect :: "(string \<Rightarrow> row option) \<Rightarrow> string list \<Rightarrow> row registry \<Rightarrow> row list \<times> row registry" where
  \<comment> \<open>the loop over the lines: \<^verbatim>\<open>this.coredumps.set(id, dumpInfo); dumps.push(dumpInfo)\<close>\<close>
  "collect p [] m = ([], m)"
| "collect p (l # ls) m =
     (case p l of
        None \<Rightarrow> collect p ls m
      | Some r \<Rightarrow> (let (rs, m') = collect p ls (m(id r \<mapsto> r)) in (r # rs, m')))"

definition list_text :: "(string \<Rightarrow> row option) \<Rightarrow> string + string \<Rightarrow> row registry
    \<Rightarrow> (exn + row list) \<times> row registry" where
  \<comment> \<open>\<^verbatim>\<open>listCoredumps\<close> around a loop body; the first argument after it is what
      \<^verbatim>\<open>execa\<close> did: \<open>Inl\<close> the message of the error it threw, \<open>Inr\<close> the standard output\<close>
  "list_text p out m =
     (case out of
        Inl msg \<Rightarrow> (Inl (McpError InternalError ''Failed to list coredumps: '' (Some (ExecaError msg))), m)
      | Inr stdout \<Rightarrow>
          (let (rs, m') = collect p (split_char CHR 0x0A (trim stdout)) Map.empty
           in (Inr rs, m')))"

definition listCoredumps_text :: "string + string \<Rightarrow> row registry \<Rightarrow> (exn + row list) \<times> row registry" where
  \<comment> \<open>\<^verbatim>\<open>listCoredumps\<close> of \<^verbatim>\<open>src/index.ts\<close>\<close>
  "listCoredumps_text = list_text parse_line"

definition listCoredumps_text_present :: "string + string \<Rightarrow> row registry \<Rightarrow> (exn + row list) \<times> row registry" where
  \<comment> \<open>\<^verbatim>\<open>listCoredumps\<close> of the revision that drops the size column\<close>
  "listCoredumps_text_present = list_text parse_line_present"

section \<open>Decoded JSON values\<close>

text \<open>
  What \<^verbatim>\<open>JSON.parse\<close> returns.  Numbers are integers, as \<^verbatim>\<open>coredumpctl\<close> prints
  them; an object keeps its members in source order.
\<close>

datatype json =
  JNull
  | JBool bool
  | JNum int
  | JStr string
  | JArr "json list"
  | JObj "(string \<times> json) list"

type_synonym jsvalue = "json option"

definition digit_char :: "nat \<Rightarrow> char" where
  "digit_char d = char_of (48 + d)"

fun decimal :: "nat \<Rightarrow> string" where
  "decimal n = (if n < 10 then [digit_char n] else decimal (n div 10) @ [digit_char (n mod 10)])"

declare decimal.simps [simp del]

definition show_int :: "int \<Rightarrow> string" where
  \<comment> \<open>\<^verbatim>\<open>String(n)\<close> for an integer\<close>
  "show_int n = (if n < 0 then CHR ''-'' # decimal (nat (- n)) else decimal (nat n))"

fun ToString :: "json \<Rightarrow> string option" where
  \<comment> \<open>the string conversion of a decoded value; \<^const>\<open>None\<close> is the \<^verbatim>\<open>TypeError\<close> of an
      object whose own \<^verbatim>\<open>toString\<close> member hides the inherited method\<close>
  "ToString JNull = Some ''null''"
| "ToString (JBool b) = Some (if b then ''true'' else ''false'')"
| "ToString (JNum n) = Some (show_int n)"
| "ToString (JStr s) = Some s"
| "ToString (JArr xs) =
     map_option (join '','')
       (those (map (\<lambda>x. if x = JNull then Some [] else ToString x) xs))"
| "ToString (JObj kvs) =
     (if ''toString'' \<in> fst ` set kvs then None else Some ''[object Object]'')"

definition template :: "jsvalue \<Rightarrow> exn + string" where
  \<comment> \<open>\<^verbatim>\<open>${v}\<close> in a template literal\<close>
  "template v =
     (case v of
        None \<Rightarrow> Inr ''undefined''
      | Some x \<Rightarrow> (case ToString x of None \<Rightarrow> Inl TypeError | Some s \<Rightarrow> Inr s))"

definition call_toString :: "jsvalue \<Rightarrow> exn + string" where
  \<comment> \<open>\<^verbatim>\<open>v.toString()\<close>\<close>
  "call_toString v =
     (case v of
        None \<Rightarrow> Inl TypeError
      | Some JNull \<Rightarrow> Inl TypeError
      | Some x \<Rightarrow> (case ToString x of None \<Rightarrow> Inl TypeError | Some s \<Rightarrow> Inr s))"

definition get_prop :: "json \<Rightarrow> string \<Rightarrow> exn + jsvalue" where
  \<comment> \<open>\<^verbatim>\<open>entry.k\<close> for the member names the server reads (none of them is inherited):
      a \<^verbatim>\<open>TypeError\<close> on \<^verbatim>\<open>null\<close>, the last member of that name of an object,
      \<^verbatim>\<open>undefined\<close> otherwise\<close>
  "get_prop entry k =
     (case entry of
        JNull \<Rightarrow> Inl TypeError
      | JObj kvs \<Rightarrow> Inr (map_of (rev kvs) k)
      | _ \<Rightarrow> Inr None)"

definition signalName :: "jsvalue \<Rightarrow> exn + string" where
  \<comment> \<open>the \<^verbatim>\<open>switch (entry.sig)\<close> of \<^verbatim>\<open>listCoredumps\<close>; \<^verbatim>\<open>case\<close> compares with \<^verbatim>\<open>===\<close>\<close>
  "signalName sig =
     (if sig = Some (JNum 6) then Inr ''SIGABRT''
      else if sig = Some (JNum 11) then Inr ''SIGSEGV''
      else if sig = Some (JNum 4) then Inr ''SIGILL''
      else if sig = Some (JNum 5) then Inr ''SIGTRAP''
      else if sig = Some (JNum 8) then Inr ''SIGFPE''
      else if sig = Some (JNum 9) then Inr ''SIGKILL''
      else (case template sig of Inl e \<Rightarrow> Inl e | Inr s \<Rightarrow> Inr (''SIG'' @ s)))"

section \<open>Repairing the structured listing (\<^verbatim>\<open>coredumpctl list --json=pretty\<close>)\<close>

text \<open>
  The regular-expression replacements of \<^verbatim>\<open>listCoredumps\<close>, each as the scan from
  left to right that \<^verbatim>\<open>replace\<close> and \<^verbatim>\<open>match\<close> perform: at a position where the
  pattern matches, the match is consumed and the scan goes on behind it; elsewhere
  the character is kept and the scan moves one character on.  The quantifiers of
  these patterns are followed by a character they cannot match themselves, so the
  longest run is the only candidate.
\<close>

function add_commas :: "string \<Rightarrow> string" where
  \<comment> \<open>\<^verbatim>\<open>.replace(/\}\s*\{/g, '},{')\<close>\<close>
  "add_commas [] = []"
| "add_commas (c # cs) =
     (if c = CHR ''}'' then
        (case dropWhile isSpace cs of
           [] \<Rightarrow> c # add_commas cs
         | d # rest \<Rightarrow>
             if d = CHR ''{'' then ''},{'' @ add_commas rest else c # add_commas cs)
      else c # add_commas cs)"
  by pat_completeness auto
termination
proof -
  have shorter: "length rest < Suc (length cs)"
    if "dropWhile P cs = d # rest" for P d and cs rest :: string
    using length_dropWhile_le [of P cs] that by simp
  show ?thesis
    by (relation "measure length") (auto dest: shorter)
qed

function fix_array_end :: "string \<Rightarrow> string" where
  \<comment> \<open>\<^verbatim>\<open>.replace(/\}\s*\]/g, '}]')\<close>\<close>
  "fix_array_end [] = []"
| "fix_array_end (c # cs) =
     (if c = CHR ''}'' then
        (case dropWhile isSpace cs of
           [] \<Rightarrow> c # fix_array_end cs
         | d # rest \<Rightarrow>
             if d = CHR '']'' then ''}]'' @ fix_array_end rest else c # fix_array_end cs)
      else c # fix_array_end cs)"
  by pat_completeness auto
termination
proof -
  have shorter: "length rest < Suc (length cs)"
    if "dropWhile P cs = d # rest" for P d and cs rest :: string
    using length_dropWhile_le [of P cs] that by simp
  show ?thesis
    by (relation "measure length") (auto dest: shorter)
qed

fun fix_array_start :: "string \<Rightarrow> string" where
  \<comment> \<open>\<^verbatim>\<open>.replace(/\[\s*\{/, '[{')\<close>: without \<^verbatim>\<open>g\<close>, the first match only\<close>
  "fix_array_start [] = []"
| "fix_array_start (c # cs) =
     (if c = CHR ''['' then
        (case dropWhile isSpace cs of
           [] \<Rightarrow> c # fix_array_start cs
         | d # rest \<Rightarrow>
             if d = CHR ''{'' then ''[{'' @ rest else c # fix_array_start cs)
      else c # fix_array_start cs)"

definition correctedJson :: "string \<Rightarrow> string" where
  "correctedJson stdout = fix_array_start (fix_array_end (add_commas stdout))"

definition notBrace :: "char \<Rightarrow> bool" where
  "notBrace c \<longleftrightarrow> c \<noteq> CHR ''{'' \<and> c \<noteq> CHR ''}''"

function objectMatches :: "string \<Rightarrow> string list" where
  \<comment> \<open>\<^verbatim>\<open>stdout.match(/\{[^{}]*\}/g) || []\<close>\<close>
  "objectMatches [] = []"
| "objectMatches (c # cs) =
     (if c = CHR ''{'' then
        (case dropWhile notBrace cs of
           [] \<Rightarrow> objectMatches cs
         | d # rest \<Rightarrow>
             if d = CHR ''}'' then (c # takeWhile notBrace cs @ [d]) # objectMatches rest
             else objectMatches cs)
      else objectMatches cs)"
  by pat_completeness auto
termination
proof -
  have shorter: "length rest < Suc (length cs)"
    if "dropWhile P cs = d # rest" for P d and cs rest :: string
    using length_dropWhile_le [of P cs] that by simp
  show ?thesis
    by (relation "measure length") (auto dest: shorter)
qed

function collapse_ws :: "string \<Rightarrow> string" where
  \<comment> \<open>\<^verbatim>\<open>.replace(/\s+/g, ' ')\<close>\<close>
  "collapse_ws [] = []"
| "collapse_ws (c # cs) =
     (if isSpace c then CHR '' '' # collapse_ws (dropWhile isSpace cs)
      else c # collapse_ws cs)"
  by pat_completeness auto
termination
  by (relation "measure length") (auto simp: length_dropWhile_le le_imp_less_Suc)

definition cleanStr :: "string \<Rightarrow> string" where
  \<comment> \<open>\<^verbatim>\<open>objStr.replace(/\n/g, ' ').replace(/\t/g, ' ').replace(/\s+/g, ' ')\<close>\<close>
  "cleanStr objStr =
     collapse_ws
       (map (\<lambda>c. if c = CHR 0x09 then CHR '' '' else c)
          (map (\<lambda>c. if c = CHR 0x0A then CHR '' '' else c) objStr))"

definition isDigit :: "char \<Rightarrow> bool" where
  "isDigit c \<longleftrightarrow> 48 \<le> (of_char c :: nat) \<and> (of_char c :: nat) \<le> 57"

definition isIdentStart :: "char \<Rightarrow> bool" where
  \<comment> \<open>\<^verbatim>\<open>[a-zA-Z_]\<close>\<close>
  "isIdentStart c \<longleftrightarrow>
     (65 \<le> (of_char c :: nat) \<and> (of_char c :: nat) \<le> 90)
     \<or> (97 \<le> (of_char c :: nat) \<and> (of_char c :: nat) \<le> 122) \<or> c = CHR ''_''"

definition isIdentChar :: "char \<Rightarrow> bool" where
  \<comment> \<open>\<^verbatim>\<open>[a-zA-Z0-9_]\<close>\<close>
  "isIdentChar c \<longleftrightarrow> isIdentStart c \<or> isDigit c"

definition bare_key :: "string \<Rightarrow> (string \<times> string \<times> string) option" where
  \<comment> \<open>\<^verbatim>\<open>\s*)([a-zA-Z_][a-zA-Z0-9_]*)\s*:\<close> behind a \<^verbatim>\<open>{\<close> or a comma: the white space,
      the identifier and the text behind the colon\<close>
  "bare_key s =
     (let ws = takeWhile isSpace s;
          name = takeWhile isIdentChar (dropWhile isSpace s);
          r = dropWhile isSpace (dropWhile isIdentChar (dropWhile isSpace s))
      in case name of
           [] \<Rightarrow> None
         | n # _ \<Rightarrow>
             if \<not> isIdentStart n then None
             else (case r of
                     [] \<Rightarrow> None
                   | d # rest \<Rightarrow> if d = CHR '':'' then Some (ws, name, rest) else None))"

function fixedStr :: "string \<Rightarrow> string" where
  \<comment> \<open>\<^verbatim>\<open>cleanStr.replace(/([{,]\s*)([a-zA-Z_][a-zA-Z0-9_]*)\s*:/g, '$1"$2":')\<close>\<close>
  "fixedStr [] = []"
| "fixedStr (c # cs) =
     (if c = CHR ''{'' \<or> c = CHR '','' then
        (case bare_key cs of
           None \<Rightarrow> c # fixedStr cs
         | Some (ws, name, rest) \<Rightarrow> c # ws @ [CHR 0x22] @ name @ [CHR 0x22, CHR '':''] @ fixedStr rest)
      else c # fixedStr cs)"
  by pat_completeness auto
termination
proof -
  have shorter: "length rest < Suc (length cs)" if "bare_key cs = Some (ws, name, rest)"
    for cs ws name rest
  proof -
    have "length (dropWhile isSpace (dropWhile isIdentChar (dropWhile isSpace cs))) \<le> length cs"
      using length_dropWhile_le [of isSpace "dropWhile isIdentChar (dropWhile isSpace cs)"]
        length_dropWhile_le [of isIdentChar "dropWhile isSpace cs"]
        length_dropWhile_le [of isSpace cs]
      by linarith
    with that show ?thesis
      by (auto simp: bare_key_def Let_def split: list.splits if_splits)
  qed
  show ?thesis
    by (relation "measure length") (auto dest: shorter)
qed

section \<open>A decoder for the examples\<close>

text \<open>
  \<^verbatim>\<open>JSON.parse\<close> belongs to the JavaScript runtime.  The listing functions below take
  the decoder as a parameter; \<open>JSON_parse\<close> is the decoder used to evaluate them on
  concrete texts.  It follows the JSON grammar on ASCII text with integer numbers:
  a number with a fraction or an exponent and a \<^verbatim>\<open>\u\<close> escape of a character beyond
  ASCII are outside this fragment and are rejected.  \<^const>\<open>None\<close> is the
  \<^verbatim>\<open>SyntaxError\<close>.
\<close>

datatype token =
  TLBrace | TRBrace | TLBrack | TRBrack | TColon | TComma
  | TString string | TNumber int | TTrue | TFalse | TNull

definition isJsonSpace :: "char \<Rightarrow> bool" where
  "isJsonSpace c \<longleftrightarrow> c = CHR '' '' \<or> c = CHR 0x09 \<or> c = CHR 0x0A \<or> c = CHR 0x0D"

definition hex_val :: "char \<Rightarrow> nat option" where
  "hex_val c =
     (let n = (of_char c :: nat) in
      if 48 \<le> n \<and> n \<le> 57 then Some (n - 48)
      else if 65 \<le> n \<and> n \<le> 70 then Some (n - 55)
      else if 97 \<le> n \<and> n \<le> 102 then Some (n - 87)
      else None)"

definition hex4 :: "char \<Rightarrow> char \<Rightarrow> char \<Rightarrow> char \<Rightarrow> char option" where
  "hex4 a b c d =
     (case (hex_val a, hex_val b, hex_val c, hex_val d) of
        (Some p, Some q, Some r, Some s) \<Rightarrow>
          (let n = ((p * 16 + q) * 16 + r) * 16 + s in
           if n < 128 then Some (char_of n) else None)
      | _ \<Rightarrow> None)"

definition unescape :: "char \<Rightarrow> char option" where
  "unescape e =
     (if e = CHR 0x22 then Some (CHR 0x22)
      else if e = CHR 0x5C then Some (CHR 0x5C)
      else if e = CHR ''/'' then Some (CHR ''/'')
      else if e = CHR ''b'' then Some (CHR 0x08)
      else if e = CHR ''f'' then Some (CHR 0x0C)
      else if e = CHR ''n'' then Some (CHR 0x0A)
      else if e = CHR ''r'' then Some (CHR 0x0D)
      else if e = CHR ''t'' then Some (CHR 0x09)
      else None)"

definition consumed :: "char \<Rightarrow> (string \<times> string) option \<Rightarrow> (string \<times> string) option" where
  "consumed c r = map_option (\<lambda>(s, rest). (c # s, rest)) r"

fun lex_string :: "string \<Rightarrow> (string \<times> string) option" where
  \<comment> \<open>behind the opening quote: the decoded contents and the text behind the closing quote\<close>
  "lex_string [] = None"
| "lex_string (c # cs) =
     (if c = CHR 0x22 then Some ([], cs)
      else if c = CHR 0x5C then
        (case cs of
           [] \<Rightarrow> None
         | e # cs' \<Rightarrow>
             if e = CHR ''u'' then
               (case cs' of
                  h1 # h2 # h3 # h4 # rest \<Rightarrow>
                    (case hex4 h1 h2 h3 h4 of
                       None \<Rightarrow> None
                     | Some ch \<Rightarrow> consumed ch (lex_string rest))
                | _ \<Rightarrow> None)
             else (case unescape e of
                     None \<Rightarrow> None
                   | Some ch \<Rightarrow> consumed ch (lex_string cs')))
      else if (of_char c :: nat) < 32 then None
      else consumed c (lex_string cs))"

definition lex_number :: "string \<Rightarrow> (int \<times> string) option" where
  \<comment> \<open>\<^verbatim>\<open>-?(0|[1-9][0-9]*)\<close>\<close>
  "lex_number s =
     (let neg = (case s of [] \<Rightarrow> False | c # _ \<Rightarrow> c = CHR ''-'');
          s1 = (if neg then tl s else s);
          ds = takeWhile isDigit s1;
          rest = dropWhile isDigit s1;
          v = foldl (\<lambda>a d. 10 * a + int (of_char d - 48)) 0 ds
      in if ds = [] then None
         else if hd ds = CHR ''0'' \<and> 1 < length ds then None
         else if (case rest of [] \<Rightarrow> False
                  | c # _ \<Rightarrow> c = CHR ''.'' \<or> c = CHR ''e'' \<or> c = CHR ''E'') then None
         else Some (if neg then - v else v, rest))"

function lex :: "string \<Rightarrow> token list option" where
  "lex [] = Some []"
| "lex (c # cs) =
     (if isJsonSpace c then lex cs
      else if c = CHR ''{'' then map_option ((#) TLBrace) (lex cs)
      else if c = CHR ''}'' then map_option ((#) TRBrace) (lex cs)
      else if c = CHR ''['' then map_option ((#) TLBrack) (lex cs)
      else if c = CHR '']'' then map_option ((#) TRBrack) (lex cs)
      else if c = CHR '':'' then map_option ((#) TColon) (lex cs)
      else if c = CHR '','' then map_option ((#) TComma) (lex cs)
      else if c = CHR 0x22 then
        (case lex_string cs of
           None \<Rightarrow> None
         | Some (s, rest) \<Rightarrow> map_option ((#) (TString s)) (lex rest))
      else if c = CHR ''-'' \<or> isDigit c then
        (case lex_number (c # cs) of
           None \<Rightarrow> None
         | Some (n, rest) \<Rightarrow> map_option ((#) (TNumber n)) (lex rest))
      else if prefix ''true'' (c # cs) then map_option ((#) TTrue) (lex (drop 3 cs))
      else if prefix ''false'' (c # cs) then map_option ((#) TFalse) (lex (drop 4 cs))
      else if prefix ''null'' (c # cs) then map_option ((#) TNull) (lex (drop 3 cs))
      else None)"
  by pat_completeness auto
termination
proof -
  have str: "length rest \<le> length cs" if "lex_string cs = Some (s, rest)" for cs s rest
    using that
  proof (induction cs arbitrary: s rest rule: length_induct)
    case (1 cs)
    show ?case
    proof (cases cs)
      case Nil
      with "1.prems" show ?thesis by simp
    next
      case (Cons c cs')
      have IH: "length ys < length cs \<longrightarrow> length r \<le> length ys"
        if "lex_string ys = Some (t, r)" for ys t r
        using "1.IH" that by blast
      from "1.prems" Cons show ?thesis
        by (auto simp: consumed_def split: if_splits list.splits option.splits dest!: IH)
    qed
  qed
  have num: "length rest < Suc (length cs)" if "lex_number (c # cs) = Some (n, rest)"
    for c cs n rest
  proof -
    have "length (dropWhile isDigit cs) \<le> length cs"
      by (rule length_dropWhile_le)
    moreover have "length (dropWhile isDigit (c # cs)) \<le> Suc (length cs)"
      using length_dropWhile_le [of isDigit "c # cs"] by simp
    ultimately show ?thesis
      using that by (auto simp: lex_number_def Let_def split: if_splits)
  qed
  show ?thesis
  proof (relation "measure length", goal_cases)
    case (9 c cs x s rest)
    then show ?case using str [of cs s rest] by simp
  next
    case (10 c cs x n rest)
    then show ?case using num [of c cs n rest] by simp
  qed simp_all
qed

declare lex.simps [simp del]

datatype frame =
  InArr "json list"
  | InObj "(string \<times> json) list" "string option"

datatype mode = Val | ValOrEnd | KeyOrEnd | Key | Colon | Next

datatype pstate = P mode "frame list" | Fin json | Err

definition complete :: "json \<Rightarrow> frame list \<Rightarrow> pstate" where
  \<comment> \<open>a value is finished: it is the result, or it goes into the container around it\<close>
  "complete v st =
     (case st of
        [] \<Rightarrow> Fin v
      | InArr acc # st' \<Rightarrow> P Next (InArr (v # acc) # st')
      | InObj acc (Some k) # st' \<Rightarrow> P Next (InObj ((k, v) # acc) None # st')
      | InObj acc None # st' \<Rightarrow> Err)"

definition start_value :: "token \<Rightarrow> frame list \<Rightarrow> pstate" where
  "start_value t st =
     (case t of
        TNull \<Rightarrow> complete JNull st
      | TTrue \<Rightarrow> complete (JBool True) st
      | TFalse \<Rightarrow> complete (JBool False) st
      | TNumber n \<Rightarrow> complete (JNum n) st
      | TString s \<Rightarrow> complete (JStr s) st
      | TLBrack \<Rightarrow> P ValOrEnd (InArr [] # st)
      | TLBrace \<Rightarrow> P KeyOrEnd (InObj [] None # st)
      | _ \<Rightarrow> Err)"

definition close_frame :: "token \<Rightarrow> frame list \<Rightarrow> pstate" where
  "close_frame t st =
     (case (t, st) of
        (TRBrack, InArr acc # st') \<Rightarrow> complete (JArr (rev acc)) st'
      | (TRBrace, InObj acc None # st') \<Rightarrow> complete (JObj (rev acc)) st'
      | _ \<Rightarrow> Err)"

definition open_key :: "token \<Rightarrow> frame list \<Rightarrow> pstate" where
  "open_key t st =
     (case (t, st) of
        (TString k, InObj acc None # st') \<Rightarrow> P Colon (InObj acc (Some k) # st')
      | _ \<Rightarrow> Err)"

fun step :: "pstate \<Rightarrow> token \<Rightarrow> pstate" where
  "step (P Val st) t = start_value t st"
| "step (P ValOrEnd st) t = (if t = TRBrack then close_frame t st else start_value t st)"
| "step (P KeyOrEnd st) t = (if t = TRBrace then close_frame t st else open_key t st)"
| "step (P Key st) t = open_key t st"
| "step (P Colon st) t = (if t = TColon then P Val st else Err)"
| "step (P Next st) t =
     (if t = TComma then
        (case st of
           InArr acc # st' \<Rightarrow> P Val st
         | InObj acc None # st' \<Rightarrow> P Key st
         | _ \<Rightarrow> Err)
      else close_frame t st)"
| "step (Fin v) t = Err"
| "step Err t = Err"

definition parse_tokens :: "token list \<Rightarrow> json option" where
  "parse_tokens ts = (case foldl step (P Val []) ts of Fin v \<Rightarrow> Some v | _ \<Rightarrow> None)"

definition JSON_parse :: "string \<Rightarrow> json option" where
  "JSON_parse s = (case lex s of None \<Rightarrow> None | Some ts \<Rightarrow> parse_tokens ts)"

section \<open>The structured listing\<close>

text \<open>
  The parts of the JavaScript runtime that the server calls and that depend on the
  host: the JSON decoder (\<^const>\<open>None\<close> for its \<^verbatim>\<open>SyntaxError\<close>),
  \<^verbatim>\<open>new Date(t / 1000).toLocaleString()\<close> as a function of \<^verbatim>\<open>t\<close>, whose text
  depends on locale and time zone (\<^const>\<open>None\<close> where converting \<^verbatim>\<open>t\<close> to a number
  throws), and \<^verbatim>\<open>decodeURIComponent\<close> (\<^const>\<open>None\<close> for its \<^verbatim>\<open>URIError\<close>).
\<close>

record runtime =
  rt_JSON_parse :: "string \<Rightarrow> json option"
  rt_toLocaleString :: "jsvalue \<Rightarrow> string option"
  rt_decodeURIComponent :: "string \<Rightarrow> string option"

type_synonym info = "(string, jsvalue) CoreDumpInfo"

definition bindE :: "exn + 'a \<Rightarrow> ('a \<Rightarrow> exn + 'b) \<Rightarrow> exn + 'b" where
  \<comment> \<open>sequencing: the first exception ends the evaluation\<close>
  "bindE r f = (case r of Inl e \<Rightarrow> Inl e | Inr x \<Rightarrow> f x)"

definition orThrow :: "exn \<Rightarrow> 'a option \<Rightarrow> exn + 'a" where
  "orThrow e r = (case r of None \<Rightarrow> Inl e | Some x \<Rightarrow> Inr x)"

fun filter_present :: "json list \<Rightarrow> exn + json list" where
  \<comment> \<open>\<^verbatim>\<open>.filter(entry => entry.corefile === "present")\<close>\<close>
  "filter_present [] = Inr []"
| "filter_present (entry # es) =
     bindE (get_prop entry ''corefile'') (\<lambda>c.
     bindE (filter_present es) (\<lambda>r.
       Inr (if c = Some (JStr ''present'') then entry # r else r)))"

definition bulk_entries :: "runtime \<Rightarrow> string \<Rightarrow> bool \<Rightarrow> json option" where
  \<comment> \<open>the first \<^verbatim>\<open>try\<close> block: \<^const>\<open>None\<close> when something in it throws.  Only an array
      has a \<^verbatim>\<open>filter\<close> method\<close>
  "bulk_entries rt stdout onlyPresent =
     (case rt_JSON_parse rt (correctedJson stdout) of
        None \<Rightarrow> None
      | Some jsonData \<Rightarrow>
          if onlyPresent then
            (case jsonData of
               JArr xs \<Rightarrow> (case filter_present xs of Inl _ \<Rightarrow> None | Inr r \<Rightarrow> Some (JArr r))
             | _ \<Rightarrow> None)
          else Some jsonData)"

definition allEntries :: "runtime \<Rightarrow> string \<Rightarrow> json list" where
  \<comment> \<open>the loop over \<^verbatim>\<open>objectMatches\<close>: an object that does not decode is skipped\<close>
  "allEntries rt stdout =
     List.map_filter (\<lambda>objStr. rt_JSON_parse rt (fixedStr (cleanStr objStr)))
       (objectMatches stdout)"

definition fallback_entries :: "runtime \<Rightarrow> string \<Rightarrow> bool \<Rightarrow> exn + json list" where
  \<comment> \<open>the \<^verbatim>\<open>try\<close> block inside \<^verbatim>\<open>catch (parseError)\<close>\<close>
  "fallback_entries rt stdout onlyPresent =
     (if onlyPresent then
        (case filter_present (allEntries rt stdout) of
           Inl e \<Rightarrow> Inl (McpError InternalError ''Failed to parse coredumpctl output: '' (Some e))
         | Inr r \<Rightarrow> Inr r)
      else Inr (allEntries rt stdout))"

definition entries :: "runtime \<Rightarrow> string \<Rightarrow> bool \<Rightarrow> exn + json" where
  \<comment> \<open>the value of the variable \<^verbatim>\<open>entries\<close> when the loop over it starts\<close>
  "entries rt stdout onlyPresent =
     (case bulk_entries rt stdout onlyPresent of
        Some j \<Rightarrow> Inr j
      | None \<Rightarrow> bindE (fallback_entries rt stdout onlyPresent) (\<lambda>es. Inr (JArr es)))"

definition iterate :: "json \<Rightarrow> exn + json list" where
  \<comment> \<open>\<^verbatim>\<open>for (const entry of entries)\<close>: an array gives its elements, a string its
      characters, nothing else is iterable\<close>
  "iterate j =
     (case j of
        JArr xs \<Rightarrow> Inr xs
      | JStr s \<Rightarrow> Inr (map (\<lambda>c. JStr [c]) s)
      | _ \<Rightarrow> Inl TypeError)"

definition convert_entry :: "runtime \<Rightarrow> json \<Rightarrow> exn + info" where
  \<comment> \<open>the body of the loop that builds a \<^verbatim>\<open>CoreDumpInfo\<close>\<close>
  "convert_entry rt entry =
     bindE (get_prop entry ''time'') (\<lambda>time.
     bindE (orThrow TypeError (rt_toLocaleString rt time)) (\<lambda>timestamp.
     bindE (get_prop entry ''pid'') (\<lambda>pidv.
     bindE (template pidv) (\<lambda>pid_text.
     bindE (get_prop entry ''sig'') (\<lambda>sig.
     bindE (signalName sig) (\<lambda>signalName.
     bindE (call_toString pidv) (\<lambda>pid.
     bindE (get_prop entry ''uid'') (\<lambda>uidv.
     bindE (call_toString uidv) (\<lambda>uid.
     bindE (get_prop entry ''gid'') (\<lambda>gidv.
     bindE (call_toString gidv) (\<lambda>gid.
     bindE (get_prop entry ''exe'') (\<lambda>exe.
       Inr \<lparr> id = timestamp @ ''-'' @ pid_text, pid = pid, uid = uid, gid = gid,
             signal = signalName, timestamp = timestamp, cmdline = Some [], exe = exe,
             hostname = Some [], coredump = None \<rparr>))))))))))))"

fun convert_all :: "runtime \<Rightarrow> json list \<Rightarrow> info registry \<Rightarrow> (exn + info list) \<times> info registry" where
  \<comment> \<open>the loop: an exception leaves the registry as filled so far\<close>
  "convert_all rt [] m = (Inr [], m)"
| "convert_all rt (entry # es) m =
     (case convert_entry rt entry of
        Inl e \<Rightarrow> (Inl e, m)
      | Inr d \<Rightarrow>
          (case convert_all rt es (m(id d \<mapsto> d)) of
             (Inl e, m') \<Rightarrow> (Inl e, m')
           | (Inr ds, m') \<Rightarrow> (Inr (d # ds), m')))"

section \<open>External commands and the manager\<close>

text \<open>
  The commands the manager runs through \<^verbatim>\<open>execa\<close>:
  \<^item> \<open>CoredumpctlList\<close>: \<^verbatim>\<open>coredumpctl list --json=pretty\<close>;
  \<^item> \<open>CoredumpctlInfo pid\<close>: \<^verbatim>\<open>coredumpctl info pid\<close>;
  \<^item> \<open>CoredumpctlDump pid path\<close>: \<^verbatim>\<open>coredumpctl dump pid -o path\<close>;
  \<^item> \<open>CoredumpctlDelete pid\<close>: \<^verbatim>\<open>coredumpctl delete pid\<close>;
  \<^item> \<open>WriteGdbCommands file\<close>: \<^verbatim>\<open>bash -c 'echo "set pagination off\nthread apply all bt full\nquit" > file'\<close>;
  \<^item> \<open>Gdb file exe core\<close>: \<^verbatim>\<open>gdb -q -batch -x file --nx exe core\<close>;
  \<^item> \<open>Rm path\<close>: \<^verbatim>\<open>rm -f path\<close>;
  \<^item> \<open>CatCorePattern\<close>: \<^verbatim>\<open>cat /proc/sys/kernel/core_pattern\<close>;
  \<^item> \<open>UlimitGet\<close>: \<^verbatim>\<open>bash -c 'ulimit -c'\<close>;
  \<^item> \<open>UlimitSet v\<close>: \<^verbatim>\<open>bash -c 'ulimit -c v'\<close>, \<open>UlimitSetSoft v\<close>: \<^verbatim>\<open>bash -c 'ulimit -S -c v'\<close>.

  A command either throws (\<open>Inl\<close>, with the message of the error) or returns its
  standard output (\<open>Inr\<close>).  What a command does is outside the program: it is given
  by a function of the commands run so far and the command run now.  The manager's
  state is its private map \<^verbatim>\<open>coredumps\<close>, and the history of the commands it has run.
\<close>

datatype cmd =
  CoredumpctlList
  | CoredumpctlInfo string
  | CoredumpctlDump string string
  | CoredumpctlDelete string
  | WriteGdbCommands string
  | Gdb string jsvalue string
  | Rm string
  | CatCorePattern
  | UlimitGet
  | UlimitSet string
  | UlimitSetSoft string

type_synonym outcome = "string + string"

type_synonym history = "(cmd \<times> outcome) list"

type_synonym execa = "history \<Rightarrow> cmd \<Rightarrow> outcome"

record manager =
  coredumps :: "info registry"
  history :: history

definition exec :: "execa \<Rightarrow> cmd \<Rightarrow> manager \<Rightarrow> outcome \<times> manager" where
  "exec ex c s = (let r = ex (history s) c in (r, s\<lparr>history := history s @ [(c, r)]\<rparr>))"

definition failed :: "string \<Rightarrow> exn \<Rightarrow> exn" where
  \<comment> \<open>\<^verbatim>\<open>new McpError(ErrorCode.InternalError, `text${error.message}`)\<close>\<close>
  "failed text e = McpError InternalError text (Some e)"

definition listCoredumps :: "runtime \<Rightarrow> execa \<Rightarrow> bool \<Rightarrow> manager \<Rightarrow> (exn + info list) \<times> manager" where
  "listCoredumps rt ex onlyPresent s =
     (case exec ex CoredumpctlList s of
        (Inl msg, s1) \<Rightarrow> (Inl (failed ''Failed to list coredumps: '' (ExecaError msg)), s1)
      | (Inr stdout, s1) \<Rightarrow>
          (case bindE (entries rt stdout onlyPresent) iterate of
             Inl e \<Rightarrow> (Inl (failed ''Failed to list coredumps: '' e), s1\<lparr>coredumps := Map.empty\<rparr>)
           | Inr es \<Rightarrow>
               (case convert_all rt es Map.empty of
                  (Inl e, m) \<Rightarrow> (Inl (failed ''Failed to list coredumps: '' e), s1\<lparr>coredumps := m\<rparr>)
                | (Inr dumps, m) \<Rightarrow> (Inr dumps, s1\<lparr>coredumps := m\<rparr>))))"

definition ensure_listed :: "runtime \<Rightarrow> execa \<Rightarrow> string \<Rightarrow> manager \<Rightarrow> exn option \<times> manager" where
  \<comment> \<open>the block that opens \<^verbatim>\<open>getCoredumpInfo\<close>, \<^verbatim>\<open>extractCoredump\<close>,
      \<^verbatim>\<open>removeCoredump\<close> and \<^verbatim>\<open>getStackTrace\<close>:
      \<^verbatim>\<open>if (!this.coredumps.has(id)) { await this.listCoredumps(); if (!this.coredumps.has(id)) throw ... }\<close>\<close>
  "ensure_listed rt ex cid s =
     (if coredumps s cid \<noteq> None then (None, s)
      else
        (case listCoredumps rt ex False s of
           (Inl e, s1) \<Rightarrow> (Some e, s1)
         | (Inr dumps, s1) \<Rightarrow>
             if coredumps s1 cid \<noteq> None then (None, s1)
             else (Some (McpError InvalidParams (''Coredump with ID '' @ cid @ '' not found'') None), s1)))"

definition info_line :: "info \<Rightarrow> string \<Rightarrow> info" where
  \<comment> \<open>one line of \<^verbatim>\<open>coredumpctl info\<close>:
      \<^verbatim>\<open>const [key, value] = line.split(':', 2).map(part => part.trim())\<close>\<close>
  "info_line c line =
     (case take 2 (split_char CHR '':'' line) of
        [] \<Rightarrow> c
      | k # vs \<Rightarrow>
          (let key = trim k;
               v = (case vs of [] \<Rightarrow> None | x # _ \<Rightarrow> Some (trim x))
           in if key = ''Command Line'' then c\<lparr>cmdline := v\<rparr>
              else if key = ''Hostname'' then c\<lparr>hostname := v\<rparr>
              else c))"

definition getCoredumpInfo :: "runtime \<Rightarrow> execa \<Rightarrow> string \<Rightarrow> manager \<Rightarrow> (exn + info) \<times> manager" where
  "getCoredumpInfo rt ex cid s =
     (case ensure_listed rt ex cid s of
        (Some e, s1) \<Rightarrow> (Inl e, s1)
      | (None, s1) \<Rightarrow>
          (case coredumps s1 cid of
             None \<Rightarrow> (Inl (failed ''Failed to get coredump info: '' TypeError), s1)
           | Some c \<Rightarrow>
               (case exec ex (CoredumpctlInfo (pid c)) s1 of
                  (Inl msg, s2) \<Rightarrow>
                    (Inl (failed ''Failed to get coredump info: '' (ExecaError msg)), s2)
                | (Inr stdout, s2) \<Rightarrow>
                    (let c' = foldl info_line c (split_char CHR 0x0A (trim stdout))
                     in (Inr c', s2\<lparr>coredumps := (coredumps s2)(cid \<mapsto> c')\<rparr>)))))"

definition extractCoredump :: "runtime \<Rightarrow> execa \<Rightarrow> string \<Rightarrow> string \<Rightarrow> manager \<Rightarrow> (exn + string) \<times> manager" where
  "extractCoredump rt ex cid outputPath s =
     (case ensure_listed rt ex cid s of
        (Some e, s1) \<Rightarrow> (Inl e, s1)
      | (None, s1) \<Rightarrow>
          (case coredumps s1 cid of
             None \<Rightarrow> (Inl (failed ''Failed to extract coredump: '' TypeError), s1)
           | Some c \<Rightarrow>
               (case exec ex (CoredumpctlDump (pid c) outputPath) s1 of
                  (Inl msg, s2) \<Rightarrow>
                    (Inl (failed ''Failed to extract coredump: '' (ExecaError msg)), s2)
                | (Inr stdout, s2) \<Rightarrow>
                    (Inr outputPath,
                     s2\<lparr>coredumps := (coredumps s2)(cid \<mapsto> c\<lparr>coredump := Some outputPath\<rparr>)\<rparr>))))"

definition removeCoredump :: "runtime \<Rightarrow> execa \<Rightarrow> string \<Rightarrow> manager \<Rightarrow> (exn + bool) \<times> manager" where
  "removeCoredump rt ex cid s =
     (case ensure_listed rt ex cid s of
        (Some e, s1) \<Rightarrow> (Inl e, s1)
      | (None, s1) \<Rightarrow>
          (case coredumps s1 cid of
             None \<Rightarrow> (Inl (failed ''Failed to remove coredump: '' TypeError), s1)
           | Some c \<Rightarrow>
               (case exec ex (CoredumpctlDelete (pid c)) s1 of
                  (Inl msg, s2) \<Rightarrow>
                    (Inl (failed ''Failed to remove coredump: '' (ExecaError msg)), s2)
                | (Inr stdout, s2) \<Rightarrow>
                    (Inr True, s2\<lparr>coredumps := (coredumps s2)(cid := None)\<rparr>))))"

section \<open>Stack traces\<close>

record StackFrame =
  index :: nat
  address :: "string option"
  func :: "string option"
  location :: "string option"
  line :: "string option"
  args :: "string option"

record StackTraceInfo =
  frames :: "StackFrame list"
  threadId :: "string option"
  trace_signal :: string

definition isLineTerminator :: "char \<Rightarrow> bool" where
  "isLineTerminator c \<longleftrightarrow> c = CHR 0x0A \<or> c = CHR 0x0D"

fun closes_header :: "string \<Rightarrow> bool" where
  \<comment> \<open>\<^verbatim>\<open>.*\):\<close>: some \<^verbatim>\<open>):\<close> follows, with no line terminator before it\<close>
  "closes_header [] = False"
| "closes_header (c # cs) =
     (prefix ''):'' (c # cs) \<or> (\<not> isLineTerminator c \<and> closes_header cs))"

definition threadMatch :: "string \<Rightarrow> string option" where
  \<comment> \<open>group 1 of \<^verbatim>\<open>line.match(/^Thread (\d+) \(.*\):/)\<close>\<close>
  "threadMatch l =
     (if prefix ''Thread '' l then
        (let r = drop 7 l;
             ds = takeWhile isDigit r;
             r1 = dropWhile isDigit r
         in if ds \<noteq> [] \<and> prefix '' ('' r1 \<and> closes_header (drop 2 r1) then Some ds
            else None)
      else None)"

definition isAddressChar :: "char \<Rightarrow> bool" where
  \<comment> \<open>\<^verbatim>\<open>[0-9xa-f]\<close>\<close>
  "isAddressChar c \<longleftrightarrow>
     isDigit c \<or> c = CHR ''x'' \<or> (97 \<le> (of_char c :: nat) \<and> (of_char c :: nat) \<le> 102)"

definition digits_value :: "string \<Rightarrow> nat" where
  \<comment> \<open>\<^verbatim>\<open>parseInt(ds, 10)\<close> on a string of digits\<close>
  "digits_value ds = foldl (\<lambda>a d. 10 * a + (of_char d - 48)) 0 ds"

definition frame_head :: "string \<Rightarrow> (string \<times> string option \<times> string) option" where
  \<comment> \<open>\<^verbatim>\<open>^#(\d+)\s+([0-9xa-f]+)? in \<close>: the digits, the address and the text behind.
      Either the white space is followed by an address and \<^verbatim>\<open> in \<close>, or the address
      is absent and the white space gives up its last character, a space, to \<^verbatim>\<open> in \<close>\<close>
  "frame_head l =
     (case l of
        [] \<Rightarrow> None
      | h # r \<Rightarrow>
          (let ds = takeWhile isDigit r;
               r1 = dropWhile isDigit r;
               ws = takeWhile isSpace r1;
               r2 = dropWhile isSpace r1;
               addr = takeWhile isAddressChar r2;
               r3 = dropWhile isAddressChar r2
           in if h \<noteq> CHR ''#'' \<or> ds = [] \<or> ws = [] then None
              else if addr \<noteq> [] \<and> prefix '' in '' r3 then Some (ds, Some addr, drop 4 r3)
              else if 2 \<le> length ws \<and> last ws = CHR '' '' \<and> prefix ''in '' r2
                then Some (ds, None, drop 3 r2)
              else None))"

definition frame_location :: "string \<Rightarrow> string option \<times> string option" where
  \<comment> \<open>\<^verbatim>\<open>(?: at ([^:]+):(\d+))?\<close>\<close>
  "frame_location r =
     (if prefix '' at '' r then
        (let r1 = drop 4 r;
             loc = takeWhile (\<lambda>c. c \<noteq> CHR '':'') r1;
             r2 = dropWhile (\<lambda>c. c \<noteq> CHR '':'') r1;
             ds = takeWhile isDigit (drop 1 r2)
         in if loc \<noteq> [] \<and> r2 \<noteq> [] \<and> ds \<noteq> [] then (Some loc, Some ds) else (None, None))
      else (None, None))"

definition frameMatch :: "string \<Rightarrow> StackFrame option" where
  \<comment> \<open>\<^verbatim>\<open>line.match(/^#(\d+)\s+([0-9xa-f]+)? in ([^\(]+)\s*\(([^)]*)\)(?: at ([^:]+):(\d+))?/)\<close>
      and the frame built from its groups\<close>
  "frameMatch l =
     (case frame_head l of
        None \<Rightarrow> None
      | Some (ds, addr, r) \<Rightarrow>
          (let f = takeWhile (\<lambda>c. c \<noteq> CHR ''('') r;
               r1 = dropWhile (\<lambda>c. c \<noteq> CHR ''('') r;
               a = takeWhile (\<lambda>c. c \<noteq> CHR '')'') (drop 1 r1);
               r2 = dropWhile (\<lambda>c. c \<noteq> CHR '')'') (drop 1 r1)
           in if f = [] \<or> r1 = [] \<or> r2 = [] then None
              else (case frame_location (drop 1 r2) of
                      (loc, ln) \<Rightarrow>
                        Some \<lparr> index = digits_value ds, address = addr, func = Some (trim f),
                               location = loc, line = ln, args = Some a \<rparr>)))"

fun parse_gdb :: "string list \<Rightarrow> StackFrame list \<Rightarrow> string option \<Rightarrow> StackFrame list \<times> string option" where
  \<comment> \<open>the loop over the lines of the debugger's output\<close>
  "parse_gdb [] fs currentThreadId = (fs, currentThreadId)"
| "parse_gdb (l # ls) fs currentThreadId =
     (case threadMatch l of
        Some t \<Rightarrow> parse_gdb ls fs (Some t)
      | None \<Rightarrow>
          (case frameMatch l of
             Some f \<Rightarrow> parse_gdb ls (fs @ [f]) currentThreadId
           | None \<Rightarrow> parse_gdb ls fs currentThreadId))"

definition gdbCommandFile :: string where
  "gdbCommandFile = ''/tmp/gdb-commands.txt''"

definition tempCorePath_of :: "info \<Rightarrow> string option" where
  \<comment> \<open>\<^verbatim>\<open>if (!coredump.coredump) tempCorePath = `/tmp/core-${coredump.pid}-temp.dump`\<close>;
      \<^verbatim>\<open>null\<close> otherwise.  The empty string is falsy too\<close>
  "tempCorePath_of c =
     (if coredump c = None \<or> coredump c = Some [] then Some (''/tmp/core-'' @ pid c @ ''-temp.dump'')
      else None)"

definition trace_body :: "runtime \<Rightarrow> execa \<Rightarrow> string \<Rightarrow> info \<Rightarrow> manager \<Rightarrow> (exn + StackTraceInfo) \<times> manager" where
  \<comment> \<open>the \<^verbatim>\<open>try\<close> block of \<^verbatim>\<open>getStackTrace\<close>\<close>
  "trace_body rt ex cid c s =
     (case (case tempCorePath_of c of
              None \<Rightarrow> (Inr (case coredump c of None \<Rightarrow> [] | Some p \<Rightarrow> p), s)
            | Some t \<Rightarrow> extractCoredump rt ex cid t s) of
        (Inl e, s1) \<Rightarrow> (Inl e, s1)
      | (Inr core, s1) \<Rightarrow>
          (case exec ex (WriteGdbCommands gdbCommandFile) s1 of
             (Inl msg, s2) \<Rightarrow> (Inl (ExecaError msg), s2)
           | (Inr out, s2) \<Rightarrow>
               (case exec ex (Gdb gdbCommandFile (exe c) core) s2 of
                  (Inl msg, s3) \<Rightarrow> (Inl (ExecaError msg), s3)
                | (Inr stdout, s3) \<Rightarrow>
                    (case parse_gdb (split_char CHR 0x0A stdout) [] None of
                       (fs, currentThreadId) \<Rightarrow>
                         (case (case tempCorePath_of c of
                                  None \<Rightarrow> (Inr [], s3)
                                | Some t \<Rightarrow> exec ex (Rm t) s3) of
                            (Inl msg, s4) \<Rightarrow> (Inl (ExecaError msg), s4)
                          | (Inr out, s4) \<Rightarrow>
                              (case exec ex (Rm gdbCommandFile) s4 of
                                 (Inl msg, s5) \<Rightarrow> (Inl (ExecaError msg), s5)
                               | (Inr out, s5) \<Rightarrow>
                                   (Inr \<lparr> frames = fs, threadId = currentThreadId,
                                          trace_signal = signal c \<rparr>, s5)))))))"

definition getStackTrace :: "runtime \<Rightarrow> execa \<Rightarrow> string \<Rightarrow> manager \<Rightarrow> (exn + StackTraceInfo) \<times> manager" where
  "getStackTrace rt ex cid s =
     (case ensure_listed rt ex cid s of
        (Some e, s1) \<Rightarrow> (Inl e, s1)
      | (None, s1) \<Rightarrow>
          (case coredumps s1 cid of
             None \<Rightarrow> (Inl (failed ''Failed to get stack trace: '' TypeError), s1)
           | Some c \<Rightarrow>
               (case trace_body rt ex cid c s1 of
                  (Inr t, s2) \<Rightarrow> (Inr t, s2)
                | (Inl e, s2) \<Rightarrow>
                    (Inl (failed ''Failed to get stack trace: '' e),
                     (case tempCorePath_of c of
                        None \<Rightarrow> s2
                      | Some t \<Rightarrow> snd (exec ex (Rm t) s2))))))"

definition effect :: "string set \<Rightarrow> cmd \<times> outcome \<Rightarrow> string set" where
  \<comment> \<open>the files the manager has written and not removed: a successful extraction or
      \<^verbatim>\<open>echo\<close> writes its target, a successful \<^verbatim>\<open>rm -f\<close> removes it\<close>
  "effect F e =
     (case e of
        (CoredumpctlDump p path, Inr out) \<Rightarrow> insert path F
      | (WriteGdbCommands file, Inr out) \<Rightarrow> insert file F
      | (Rm path, Inr out) \<Rightarrow> F - {path}
      | _ \<Rightarrow> F)"

definition files_left :: "history \<Rightarrow> string set" where
  "files_left h = foldl effect {} h"

section \<open>Core dump configuration\<close>

record config =
  enabled :: bool
  corePattern :: string
  coreSizeLimit :: string
  systemdHandled :: bool

fun str_includes :: "string \<Rightarrow> string \<Rightarrow> bool" where
  \<comment> \<open>\<^verbatim>\<open>s.includes(p)\<close>\<close>
  "str_includes [] p = (p = [])"
| "str_includes (c # cs) p = (prefix p (c # cs) \<or> str_includes cs p)"

definition getCoreDumpConfig :: "execa \<Rightarrow> manager \<Rightarrow> (exn + config) \<times> manager" where
  "getCoreDumpConfig ex s =
     (case exec ex CatCorePattern s of
        (Inl msg, s1) \<Rightarrow>
          (Inl (failed ''Failed to get core dump configuration: '' (ExecaError msg)), s1)
      | (Inr pattern, s1) \<Rightarrow>
          (case exec ex UlimitGet s1 of
             (Inl msg, s2) \<Rightarrow>
               (Inl (failed ''Failed to get core dump configuration: '' (ExecaError msg)), s2)
           | (Inr ulimitOutput, s2) \<Rightarrow>
               (let limit = trim ulimitOutput;
                    piped = prefix ''|'' (trim pattern);
                    handled = (piped \<and> str_includes pattern ''systemd-coredump'')
                in (Inr \<lparr> enabled = (limit \<noteq> ''0'' \<and> (handled \<or> \<not> piped)),
                          corePattern = trim pattern, coreSizeLimit = limit,
                          systemdHandled = handled \<rparr>, s2))))"

definition setCoreDumpEnabled :: "execa \<Rightarrow> bool \<Rightarrow> manager \<Rightarrow> (exn + bool) \<times> manager" where
  "setCoreDumpEnabled ex on s =
     (let wrap = failed (''Failed to '' @ (if on then ''enable'' else ''disable'') @ '' core dumps: '');
          limitValue = (if on then ''unlimited'' else ''0'')
      in case getCoreDumpConfig ex s of
           (Inl e, s1) \<Rightarrow> (Inl (wrap e), s1)
         | (Inr currentConfig, s1) \<Rightarrow>
             (case exec ex (UlimitSet limitValue) s1 of
                (Inl msg, s2) \<Rightarrow> (Inl (wrap (ExecaError msg)), s2)
              | (Inr out, s2) \<Rightarrow>
                  (case exec ex (UlimitSetSoft limitValue) s2 of
                     (Inl msg, s3) \<Rightarrow> (Inl (wrap (ExecaError msg)), s3)
                   | (Inr out, s3) \<Rightarrow>
                       (case getCoreDumpConfig ex s3 of
                          (Inl e, s4) \<Rightarrow> (Inl (wrap e), s4)
                        | (Inr newConfig, s4) \<Rightarrow> (Inr (enabled newConfig = on), s4)))))"

section \<open>The tool handler\<close>

text \<open>
  A tool call has a name and, possibly, arguments.  The text of a response that is
  \<^verbatim>\<open>JSON.stringify(v, null, 2)\<close> is kept as the value \<open>v\<close>; the text built from a
  caught error is kept as its literal part and the error.
\<close>

record request =
  name :: string
  arguments :: "(string \<rightharpoonup> json) option"

datatype content =
  Text string
  | DumpsJson "info list"
  | InfoJson info
  | ConfigJson config string
  | ErrorText string exn

record response =
  body :: content
  isError :: bool

definition argument :: "request \<Rightarrow> string \<Rightarrow> jsvalue" where
  \<comment> \<open>\<^verbatim>\<open>request.params.arguments?.k\<close>\<close>
  "argument req k = (case arguments req of None \<Rightarrow> None | Some m \<Rightarrow> m k)"

definition String :: "jsvalue \<Rightarrow> exn + string" where
  \<comment> \<open>\<^verbatim>\<open>String(v)\<close>: \<^verbatim>\<open>undefined\<close> becomes the text \<^verbatim>\<open>undefined\<close>\<close>
  "String v = template v"

definition Boolean :: "jsvalue \<Rightarrow> bool" where
  \<comment> \<open>\<^verbatim>\<open>Boolean(v)\<close>\<close>
  "Boolean v =
     (case v of
        None \<Rightarrow> False
      | Some JNull \<Rightarrow> False
      | Some (JBool b) \<Rightarrow> b
      | Some (JNum n) \<Rightarrow> n \<noteq> 0
      | Some (JStr s) \<Rightarrow> s \<noteq> []
      | Some _ \<Rightarrow> True)"

definition truthy :: "string option \<Rightarrow> bool" where
  \<comment> \<open>a string or \<^verbatim>\<open>undefined\<close> as a condition\<close>
  "truthy v = (case v of None \<Rightarrow> False | Some s \<Rightarrow> s \<noteq> [])"

definition frameOutput :: "StackFrame \<Rightarrow> string" where
  "frameOutput f =
     ''#'' @ decimal (index f) @ '' ''
     @ (if truthy (address f) then interpolate (address f) @ '' '' else [])
     @ (if truthy (func f) then ''in '' @ interpolate (func f) @ '' '' else [])
     @ (if truthy (args f) then ''('' @ interpolate (args f) @ '') '' else [])
     @ (if truthy (location f) then
          ''at '' @ interpolate (location f)
          @ (if truthy (line f) then '':'' @ interpolate (line f) else [])
        else [])
     @ [CHR 0x0A]"

definition formattedOutput :: "string \<Rightarrow> StackTraceInfo \<Rightarrow> string" where
  "formattedOutput cid t =
     ''Stack trace for coredump '' @ cid @ [CHR 0x0A]
     @ ''Signal: '' @ trace_signal t @ [CHR 0x0A, CHR 0x0A]
     @ concat (map frameOutput (frames t))"

definition ok :: "content \<Rightarrow> exn + response" where
  "ok c = Inr \<lparr> body = c, isError = False \<rparr>"

definition required :: "string \<Rightarrow> exn" where
  "required text = McpError InvalidParams text None"

definition call_tool :: "runtime \<Rightarrow> execa \<Rightarrow> request \<Rightarrow> manager \<Rightarrow> (exn + response) \<times> manager" where
  \<comment> \<open>the handler of \<^verbatim>\<open>CallToolRequestSchema\<close>\<close>
  "call_tool rt ex req s =
     (if name req = ''list_coredumps'' then
        (case listCoredumps rt ex (Boolean (argument req ''onlyPresent'')) s of
           (Inl e, s1) \<Rightarrow> (Inl e, s1)
         | (Inr dumps, s1) \<Rightarrow> (ok (DumpsJson dumps), s1))
      else if name req = ''get_coredump_info'' then
        (case String (argument req ''id'') of
           Inl e \<Rightarrow> (Inl e, s)
         | Inr cid \<Rightarrow>
             if cid = [] then (Inl (required ''Coredump ID is required''), s)
             else (case rt_decodeURIComponent rt cid of
                     None \<Rightarrow> (Inl URIError, s)
                   | Some decodedId \<Rightarrow>
                       (case getCoredumpInfo rt ex decodedId s of
                          (Inl e, s1) \<Rightarrow> (Inl e, s1)
                        | (Inr i, s1) \<Rightarrow> (ok (InfoJson i), s1))))
      else if name req = ''extract_coredump'' then
        (case bindE (String (argument req ''id'')) (\<lambda>cid.
              bindE (String (argument req ''outputPath'')) (\<lambda>outputPath. Inr (cid, outputPath))) of
           Inl e \<Rightarrow> (Inl e, s)
         | Inr (cid, outputPath) \<Rightarrow>
             if cid = [] \<or> outputPath = []
             then (Inl (required ''Coredump ID and output path are required''), s)
             else (case rt_decodeURIComponent rt cid of
                     None \<Rightarrow> (Inl URIError, s)
                   | Some decodedId \<Rightarrow>
                       (case extractCoredump rt ex decodedId outputPath s of
                          (Inl e, s1) \<Rightarrow> (Inl e, s1)
                        | (Inr path, s1) \<Rightarrow> (ok (Text (''Coredump extracted to: '' @ path)), s1))))
      else if name req = ''get_coredump_config'' then
        (case getCoreDumpConfig ex s of
           (Inl e, s1) \<Rightarrow> (Inl e, s1)
         | (Inr c, s1) \<Rightarrow>
             (ok (ConfigJson c (''Core dumps are currently ''
                    @ (if enabled c then ''ENABLED'' else ''DISABLED''))), s1))
      else if name req = ''set_coredump_enabled'' then
        (let on = Boolean (argument req ''enabled'') in
         case setCoreDumpEnabled ex on s of
           (Inl e, s1) \<Rightarrow> (Inl e, s1)
         | (Inr success, s1) \<Rightarrow>
             (ok (Text (if success
                        then ''Core dumps have been successfully ''
                             @ (if on then ''enabled'' else ''disabled'')
                        else ''Failed to '' @ (if on then ''enable'' else ''disable'')
                             @ '' core dumps'')), s1))
      else if name req = ''get_stacktrace'' then
        (case String (argument req ''id'') of
           Inl e \<Rightarrow> (Inl e, s)
         | Inr cid \<Rightarrow>
             if cid = [] then (Inl (required ''Coredump ID is required''), s)
             else (case rt_decodeURIComponent rt cid of
                     None \<Rightarrow>
                       (Inr \<lparr> body = ErrorText ''Failed to get stack trace: '' URIError,
                              isError = True \<rparr>, s)
                   | Some decodedId \<Rightarrow>
                       (case getStackTrace rt ex decodedId s of
                          (Inl e, s1) \<Rightarrow>
                            (Inr \<lparr> body = ErrorText ''Failed to get stack trace: '' e,
                                   isError = True \<rparr>, s1)
                        | (Inr t, s1) \<Rightarrow> (ok (Text (formattedOutput cid t)), s1))))
      else (Inl (McpError MethodNotFound (''Unknown tool: '' @ name req) None), s))"

section \<open>A host and a registry for the examples\<close>

definition example_runtime :: runtime where
  \<comment> \<open>a host with the \<^verbatim>\<open>en-US\<close> locale in UTC.  Its date conversion is given where
      the examples use it: an absent time is \<^verbatim>\<open>Invalid Date\<close> on every host.  Its
      \<^verbatim>\<open>decodeURIComponent\<close> is given on text without a percent sign, where it is the
      identity on every host\<close>
  "example_runtime =
     \<lparr> rt_JSON_parse = JSON_parse,
       rt_toLocaleString =
         (\<lambda>t. if t = Some (JNum 1686934245000000) then Some ''6/16/2023, 4:50:45 PM''
              else Some ''Invalid Date''),
       rt_decodeURIComponent = (\<lambda>s. if CHR ''%'' \<in> set s then None else Some s) \<rparr>"

definition example_info :: info where
  "example_info =
     \<lparr> id = ''6/16/2023, 4:50:45 PM-2465'', pid = ''2465'', uid = ''1000'', gid = ''100'',
       signal = ''SIGABRT'', timestamp = ''6/16/2023, 4:50:45 PM'', cmdline = Some [],
       exe = Some (JStr ''/usr/bin/cuteime''), hostname = Some [], coredump = None \<rparr>"

definition example_manager :: manager where
  \<comment> \<open>the manager after a listing that found one dump\<close>
  "example_manager =
     \<lparr> coredumps = [''6/16/2023, 4:50:45 PM-2465'' \<mapsto> example_info], history = [] \<rparr>"

definition empty_manager :: manager where
  \<comment> \<open>the manager when the server starts\<close>
  "empty_manager = \<lparr> coredumps = Map.empty, history = [] \<rparr>"

definition no_dumps :: execa where
  \<comment> \<open>a system without dumps: every command succeeds, the listing is the empty array\<close>
  "no_dumps h c = (if c = CoredumpctlList then Inr ''[]'' else Inr [])"

definition all_succeed :: execa where
  \<comment> \<open>every command succeeds and prints nothing\<close>
  "all_succeed h c = Inr []"

definition gdb_fails :: execa where
  \<comment> \<open>the debugger exits with an error, every other command succeeds\<close>
  "gdb_fails h c = (case c of Gdb f e p \<Rightarrow> Inl ''Command failed: gdb'' | _ \<Rightarrow> Inr [])"

definition delete_fails :: execa where
  "delete_fails h c =
     (case c of CoredumpctlDelete p \<Rightarrow> Inl ''Command failed: coredumpctl delete'' | _ \<Rightarrow> Inr [])"

definition missing_id :: request where
  \<comment> \<open>a call of \<^verbatim>\<open>get_coredump_info\<close> with the arguments \<^verbatim>\<open>{}\<close>\<close>
  "missing_id = \<lparr> name = ''get_coredump_info'', arguments = Some Map.empty \<rparr>"

definition missing_path :: request where
  \<comment> \<open>a call of \<^verbatim>\<open>extract_coredump\<close> with an id and no \<^verbatim>\<open>outputPath\<close>\<close>
  "missing_path =
     \<lparr> name = ''extract_coredump'',
       arguments = Some [''id'' \<mapsto> JStr ''6/16/2023, 4:50:45 PM-2465''] \<rparr>"

definition listing :: "string \<Rightarrow> execa" where
  \<comment> \<open>a system whose listing command prints the given text\<close>
  "listing text h c = (if c = CoredumpctlList then Inr text else Inr [])"


definition broken_listing :: string where
  \<comment> \<open>a valid array whose second object has no \<^verbatim>\<open>pid\<close>\<close>
  "broken_listing =
     ''[{\"time\":1686934245000000,\"pid\":2465,\"uid\":1000,\"gid\":100,\"sig\":6,\"corefile\":\"present\",\"exe\":\"/usr/bin/cuteime\"},''
     @ ''{\"time\":1686934245000000,\"uid\":1000,\"gid\":100,\"sig\":11,\"corefile\":\"present\",\"exe\":\"/usr/bin/other\"}]''"




section \<open>Properties of the text listing\<close>

text \<open>
  C1. The line
  \<^verbatim>\<open>Sat 2023-06-17 01:50:45 JST    2465 1000  100 SIGABRT present  /usr/bin/cuteime 1.5M\<close>
  gives exactly one record, with id \<^verbatim>\<open>Sat 2023-06-17 01:50:45 JST-2465\<close>, pid 2465,
  uid 1000, gid 100, signal SIGABRT, that timestamp and executable
  \<^verbatim>\<open>/usr/bin/cuteime\<close>: the size token is dropped and is not part of the path.
  (The command line and the host name are the empty strings the parser initialises
  them with.)
\<close>

theorem C1_example_line:
  "fst (listCoredumps_text_present
      (Inr ''Sat 2023-06-17 01:50:45 JST    2465 1000  100 SIGABRT present  /usr/bin/cuteime 1.5M'') m)
   = Inr [\<lparr> id = ''Sat 2023-06-17 01:50:45 JST-2465'', pid = Some ''2465'',
            uid = Some ''1000'', gid = Some ''100'', signal = Some ''SIGABRT'',
            timestamp = ''Sat 2023-06-17 01:50:45 JST'', cmdline = Some [],
            exe = ''/usr/bin/cuteime'', hostname = Some [], coredump = None \<rparr>]"
  by code_simp

text \<open>
  The first revision of the parser (\<^verbatim>\<open>src/index.ts\<close>) was written for listings
  without a size column and keeps every token after the status in the path.
\<close>

lemma first_revision_keeps_size:
  "map_option exe (parse_line
      ''Sat 2023-06-17 01:50:45 JST    2465 1000  100 SIGABRT present  /usr/bin/cuteime 1.5M'')
   = Some ''/usr/bin/cuteime 1.5M''"
  by code_simp

lemma indexOf_absent: "indexOf xs v = -1 \<longleftrightarrow> v \<notin> set xs"
proof (induction xs)
  case Nil
  show ?case by simp
next
  case (Cons x xs)
  have "0 \<le> indexOf ys v \<or> indexOf ys v = -1" for ys
    by (induction ys) (auto simp: Let_def)
  from this [of xs] Cons show ?case
    by (auto simp: Let_def)
qed


lemma collect_map_filter: "fst (collect p ls m) = List.map_filter p ls"
  by (induction ls arbitrary: m) (simp_all add: List.map_filter_simps split_beta split: option.splits)

lemma list_text_records:
  "fst (list_text p (Inr stdout) m) = Inr (List.map_filter p (split_char CHR 0x0A (trim stdout)))"
  using collect_map_filter [of p "split_char CHR 0x0A (trim stdout)" Map.empty]
  by (simp add: list_text_def split_beta)



lemma parse_line_short:
  "length (split_ws (trim l)) < 7 \<Longrightarrow> parse_line l = None"
  by (simp add: parse_line_def Let_def)

lemma parse_line_no_status:
  "''missing'' \<notin> set (split_ws (trim l)) \<Longrightarrow> ''present'' \<notin> set (split_ws (trim l))
     \<Longrightarrow> parse_line l = None"
  by (simp add: parse_line_def Let_def indexOf_absent)

section \<open>Properties of the structured listing\<close>

text \<open>
  C5. The signal translation maps 6 to SIGABRT, 11 to SIGSEGV, 4 to SIGILL, 5 to
  SIGTRAP, 8 to SIGFPE and 9 to SIGKILL, and every other code to \<^verbatim>\<open>SIG\<close> followed
  by the decimal digits of the code, for example 23 to \<^verbatim>\<open>SIG23\<close>.
\<close>

theorem C5_signal_names:
  "signalName (Some (JNum 6)) = Inr ''SIGABRT''
   \<and> signalName (Some (JNum 11)) = Inr ''SIGSEGV''
   \<and> signalName (Some (JNum 4)) = Inr ''SIGILL''
   \<and> signalName (Some (JNum 5)) = Inr ''SIGTRAP''
   \<and> signalName (Some (JNum 8)) = Inr ''SIGFPE''
   \<and> signalName (Some (JNum 9)) = Inr ''SIGKILL''
   \<and> (\<forall>n::nat. n \<notin> {4, 5, 6, 8, 9, 11} \<longrightarrow>
         signalName (Some (JNum (int n))) = Inr (''SIG'' @ decimal n))"
  by (auto simp: signalName_def template_def show_int_def)

theorem C5_signal_names_witness:
  "(23::nat) \<notin> {4, 5, 6, 8, 9, 11} \<and> signalName (Some (JNum 23)) = Inr ''SIG23''"
proof -
  have d: "decimal 23 = ''23''"
    by code_simp
  from C5_signal_names
  have "(23::nat) \<notin> {4, 5, 6, 8, 9, 11} \<longrightarrow>
          signalName (Some (JNum (int 23))) = Inr (''SIG'' @ decimal 23)"
    by blast
  then show ?thesis
    using d by simp
qed

section \<open>Properties of the repair\<close>

text \<open>
  The three replacements leave the tokens of a text unchanged when the text decodes
  and its strings are free of the characters the patterns start with: outside a
  string, a closing brace is followed by an opening one in no text that decodes, and
  the other two patterns remove white space between two tokens only.
\<close>

lemma json_space_is_space: "isJsonSpace c \<Longrightarrow> isSpace c"
  by (auto simp: isJsonSpace_def isSpace_def)






























section \<open>Properties of the manager\<close>

lemma exec_eq:
  "exec ex c s = (ex (history s) c, s\<lparr>history := history s @ [(c, ex (history s) c)]\<rparr>)"
  by (simp add: exec_def Let_def)


lemma ensure_listed_present:
  "ensure_listed rt ex cid s = (None, s1) \<Longrightarrow> coredumps s1 cid \<noteq> None"
  by (auto simp: ensure_listed_def split: if_splits sum.splits prod.splits)

lemma ensure_listed_known:
  "coredumps s cid = Some c \<Longrightarrow> ensure_listed rt ex cid s = (None, s)"
  by (simp add: ensure_listed_def)




section \<open>Properties of the listing as a whole\<close>





lemma filter_present_error: "filter_present xs = Inl e \<Longrightarrow> JNull \<in> set xs"
  by (induction xs) (auto simp: bindE_def get_prop_def split: sum.splits json.splits)

lemma convert_all_error:
  "convert_all rt es m = (Inl e, m') \<Longrightarrow> \<exists>x\<in>set es. convert_entry rt x = Inl e"
  by (induction es arbitrary: m) (auto split: sum.splits prod.splits)

lemma undecodable_gives_empty:
  assumes "ex (history s) CoredumpctlList = Inr out"
    and "rt_JSON_parse rt (correctedJson out) = None"
    and "\<forall>obj\<in>set (objectMatches out). rt_JSON_parse rt (fixedStr (cleanStr obj)) = None"
  shows "fst (listCoredumps rt ex b s) = Inr []"
proof -
  from assms(3) have "allEntries rt out = []"
    by (simp add: allEntries_def List.map_filter_def filter_empty_conv)
  with assms(1,2) show ?thesis
    by (simp add: listCoredumps_def exec_eq entries_def bulk_entries_def fallback_entries_def
        bindE_def iterate_def)
qed

lemma listCoredumps_error:
  assumes "fst (listCoredumps rt ex b s) = Inl e"
  shows "(\<exists>msg. ex (history s) CoredumpctlList = Inl msg)
     \<or> (\<exists>out j. ex (history s) CoredumpctlList = Inr out \<and> entries rt out b = Inr j
           \<and> (iterate j = Inl TypeError
               \<or> (\<exists>es. iterate j = Inr es \<and> (\<exists>x\<in>set es. \<exists>e'. convert_entry rt x = Inl e'))))
     \<or> (\<exists>out. ex (history s) CoredumpctlList = Inr out \<and> JNull \<in> set (allEntries rt out))"
proof (cases "ex (history s) CoredumpctlList")
  case (Inl msg)
  then show ?thesis by blast
next
  case (Inr out)
  show ?thesis
  proof (cases "entries rt out b")
    case (Inl e1)
    then have "JNull \<in> set (allEntries rt out)"
      by (auto simp: entries_def fallback_entries_def bindE_def
          split: option.splits if_splits sum.splits dest: filter_present_error)
    with Inr show ?thesis by blast
  next
    case j: (Inr j)
    show ?thesis
    proof (cases "iterate j")
      case (Inl e2)
      then have "iterate j = Inl TypeError"
        by (auto simp: iterate_def split: json.splits)
      with Inr j show ?thesis by blast
    next
      case es: (Inr es)
      from assms Inr j es obtain e3 m' where "convert_all rt es Map.empty = (Inl e3, m')"
        by (auto simp: listCoredumps_def exec_eq bindE_def split: sum.splits prod.splits)
      from convert_all_error [OF this] Inr j es show ?thesis
        by blast
    qed
  qed
qed

lemma broken_listing_decodes: "JSON_parse (correctedJson broken_listing) \<noteq> None"
  by code_simp

lemma broken_listing_fails:
  "fst (listCoredumps example_runtime (listing broken_listing) False empty_manager)
     = Inl (McpError InternalError ''Failed to list coredumps: '' (Some TypeError))"
  by code_simp



text \<open>
  C2, as the code has it. A row of the text listing with fewer than 7 tokens, or
  without a status token, contributes no record, and the text listing never raises
  on an output: its records are those of the rows that parse. In the structured
  listing a failure to decode never raises: when the repaired text does not decode,
  the entries are the objects that decode one by one, the others are skipped, and an
  output of which nothing decodes gives the empty list. The structured listing
  raises only when the listing command fails or when a decoded value cannot be
  converted: the decoded value is not iterable, an entry is \<^verbatim>\<open>null\<close>, or the
  conversion of an entry throws (as \<^verbatim>\<open>entry.pid.toString()\<close> does for an object
  without \<^verbatim>\<open>pid\<close>).
\<close>

theorem C2_malformed_dropped:
  "((length (split_ws (trim l)) < 7
      \<or> (''missing'' \<notin> set (split_ws (trim l)) \<and> ''present'' \<notin> set (split_ws (trim l))))
     \<longrightarrow> parse_line l = None)
   \<and> fst (listCoredumps_text (Inr stdout) m)
       = Inr (List.map_filter parse_line (split_char CHR 0x0A (trim stdout)))
   \<and> (ex (history s) CoredumpctlList = Inr out
       \<and> rt_JSON_parse rt (correctedJson out) = None
       \<and> (\<forall>obj\<in>set (objectMatches out). rt_JSON_parse rt (fixedStr (cleanStr obj)) = None)
       \<longrightarrow> fst (listCoredumps rt ex b s) = Inr [])
   \<and> (rt_JSON_parse rt (correctedJson out) = None \<longrightarrow>
        entries rt out False
          = Inr (JArr (List.map_filter (\<lambda>obj. rt_JSON_parse rt (fixedStr (cleanStr obj)))
                        (objectMatches out))))
   \<and> (fst (listCoredumps rt ex b s) = Inl e \<longrightarrow>
        (\<exists>msg. ex (history s) CoredumpctlList = Inl msg)
        \<or> (\<exists>out j. ex (history s) CoredumpctlList = Inr out \<and> entries rt out b = Inr j
              \<and> (iterate j = Inl TypeError
                  \<or> (\<exists>es. iterate j = Inr es
                        \<and> (\<exists>x\<in>set es. \<exists>e'. convert_entry rt x = Inl e'))))
        \<or> (\<exists>out. ex (history s) CoredumpctlList = Inr out \<and> JNull \<in> set (allEntries rt out)))"
proof (intro conjI impI)
  assume "length (split_ws (trim l)) < 7
      \<or> (''missing'' \<notin> set (split_ws (trim l)) \<and> ''present'' \<notin> set (split_ws (trim l)))"
  then show "parse_line l = None"
    using parse_line_short parse_line_no_status by blast
next
  show "fst (listCoredumps_text (Inr stdout) m)
       = Inr (List.map_filter parse_line (split_char CHR 0x0A (trim stdout)))"
    by (simp add: listCoredumps_text_def list_text_records)
next
  assume "ex (history s) CoredumpctlList = Inr out
       \<and> rt_JSON_parse rt (correctedJson out) = None
       \<and> (\<forall>obj\<in>set (objectMatches out). rt_JSON_parse rt (fixedStr (cleanStr obj)) = None)"
  then show "fst (listCoredumps rt ex b s) = Inr []"
    using undecodable_gives_empty by blast
next
  assume "rt_JSON_parse rt (correctedJson out) = None"
  then show "entries rt out False
      = Inr (JArr (List.map_filter (\<lambda>obj. rt_JSON_parse rt (fixedStr (cleanStr obj)))
                    (objectMatches out)))"
    by (simp add: entries_def bulk_entries_def fallback_entries_def bindE_def allEntries_def)
next
  assume "fst (listCoredumps rt ex b s) = Inl e"
  then show "(\<exists>msg. ex (history s) CoredumpctlList = Inl msg)
        \<or> (\<exists>out j. ex (history s) CoredumpctlList = Inr out \<and> entries rt out b = Inr j
              \<and> (iterate j = Inl TypeError
                  \<or> (\<exists>es. iterate j = Inr es
                        \<and> (\<exists>x\<in>set es. \<exists>e'. convert_entry rt x = Inl e'))))
        \<or> (\<exists>out. ex (history s) CoredumpctlList = Inr out \<and> JNull \<in> set (allEntries rt out))"
    by (rule listCoredumps_error)
qed

theorem C2_malformed_dropped_witness:
  "length (split_ws (trim ''Sat 2023-06-17 2465'')) < 7
   \<and> parse_line ''Sat 2023-06-17 2465'' = None
   \<and> listing ''garbage'' (history empty_manager) CoredumpctlList = Inr ''garbage''
   \<and> rt_JSON_parse example_runtime (correctedJson ''garbage'') = None
   \<and> objectMatches ''garbage'' = []
   \<and> fst (listCoredumps example_runtime (listing ''garbage'') False empty_manager) = Inr []
   \<and> fst (listCoredumps example_runtime (listing broken_listing) False empty_manager)
       = Inl (McpError InternalError ''Failed to list coredumps: '' (Some TypeError))
   \<and> (\<exists>j. entries example_runtime broken_listing False = Inr j
         \<and> (iterate j = Inl TypeError
             \<or> (\<exists>es. iterate j = Inr es
                   \<and> (\<exists>x\<in>set es. \<exists>e'. convert_entry example_runtime x = Inl e'))))"
proof -
  have short: "length (split_ws (trim ''Sat 2023-06-17 2465'')) < 7"
    by code_simp
  have out: "listing ''garbage'' (history empty_manager) CoredumpctlList = Inr ''garbage''"
    by (simp add: listing_def)
  have bulk: "rt_JSON_parse example_runtime (correctedJson ''garbage'') = None"
    by code_simp
  have none: "objectMatches ''garbage'' = []"
    by code_simp
  have out': "listing broken_listing (history empty_manager) CoredumpctlList = Inr out
      \<longleftrightarrow> out = broken_listing" for out
    by (auto simp: listing_def)
  have notnull: "JNull \<notin> set (allEntries example_runtime broken_listing)"
    by code_simp
  from C2_malformed_dropped [of "''Sat 2023-06-17 2465''" _ _ "listing ''garbage''"
      empty_manager "''garbage''" example_runtime False] short out bulk none
  have a: "parse_line ''Sat 2023-06-17 2465'' = None"
    "fst (listCoredumps example_runtime (listing ''garbage'') False empty_manager) = Inr []"
    by simp_all
  from C2_malformed_dropped [of _ _ _ "listing broken_listing" empty_manager _
      example_runtime False "McpError InternalError ''Failed to list coredumps: '' (Some TypeError)"]
    broken_listing_fails
  have b: "\<exists>j. entries example_runtime broken_listing False = Inr j
         \<and> (iterate j = Inl TypeError
             \<or> (\<exists>es. iterate j = Inr es
                   \<and> (\<exists>x\<in>set es. \<exists>e'. convert_entry example_runtime x = Inl e')))"
    using notnull by (auto simp: out' listing_def)
  from short a out bulk none b broken_listing_fails show ?thesis
    by simp
qed

text \<open>
  The claim lets a malformed object contribute nothing and restricts errors to
  outputs that decode in neither way. An output that decodes at once, with one
  object that lacks its \<^verbatim>\<open>pid\<close>, makes the whole listing fail with
  \<^verbatim>\<open>InternalError\<close>.
\<close>

theorem C2_counterexample:
  "JSON_parse (correctedJson broken_listing) \<noteq> None
   \<and> fst (listCoredumps example_runtime (listing broken_listing) False empty_manager)
     = Inl (McpError InternalError ''Failed to list coredumps: '' (Some TypeError))"
  using broken_listing_decodes broken_listing_fails by simp








text \<open>
  C10. Once the id is resolved, \<^verbatim>\<open>removeCoredump\<close> runs the delete command for the
  record's pid. If the command succeeds, the result is \<^verbatim>\<open>true\<close>, the id is no longer
  in the map and every other entry is unchanged. If the command fails, the
  operation fails with \<^verbatim>\<open>InternalError\<close> and the map is unchanged: the record
  stays cached.
\<close>

theorem C10_remove:
  assumes "ensure_listed rt ex cid s = (None, s1)"
  shows "\<exists>c s2. coredumps s1 cid = Some c
     \<and> history s2 = history s1 @ [(CoredumpctlDelete (pid c), ex (history s1) (CoredumpctlDelete (pid c)))]
     \<and> (case ex (history s1) (CoredumpctlDelete (pid c)) of
          Inr out \<Rightarrow>
            removeCoredump rt ex cid s = (Inr True, s2)
            \<and> coredumps s2 cid = None \<and> (\<forall>k. k \<noteq> cid \<longrightarrow> coredumps s2 k = coredumps s1 k)
        | Inl msg \<Rightarrow>
            removeCoredump rt ex cid s
              = (Inl (McpError InternalError ''Failed to remove coredump: '' (Some (ExecaError msg))), s2)
            \<and> coredumps s2 = coredumps s1)"
proof -
  from ensure_listed_present [OF assms] obtain c where c: "coredumps s1 cid = Some c"
    by blast
  show ?thesis
  proof (cases "ex (history s1) (CoredumpctlDelete (pid c))")
    case (Inl msg)
    with assms c show ?thesis
      by (simp add: removeCoredump_def exec_eq failed_def)
  next
    case (Inr out)
    with assms c show ?thesis
      by (simp add: removeCoredump_def exec_eq)
  qed
qed

theorem C10_remove_witness:
  "ensure_listed example_runtime delete_fails ''6/16/2023, 4:50:45 PM-2465'' example_manager
     = (None, example_manager)
   \<and> fst (removeCoredump example_runtime delete_fails ''6/16/2023, 4:50:45 PM-2465'' example_manager)
       = Inl (McpError InternalError ''Failed to remove coredump: ''
               (Some (ExecaError ''Command failed: coredumpctl delete'')))
   \<and> coredumps (snd (removeCoredump example_runtime delete_fails ''6/16/2023, 4:50:45 PM-2465''
         example_manager)) = coredumps example_manager
   \<and> fst (removeCoredump example_runtime all_succeed ''6/16/2023, 4:50:45 PM-2465'' example_manager)
       = Inr True
   \<and> coredumps (snd (removeCoredump example_runtime all_succeed ''6/16/2023, 4:50:45 PM-2465''
         example_manager)) ''6/16/2023, 4:50:45 PM-2465'' = None"
proof -
  have a: "ensure_listed example_runtime ex ''6/16/2023, 4:50:45 PM-2465'' example_manager
     = (None, example_manager)" for ex
    by (simp add: ensure_listed_def example_manager_def)
  have p: "coredumps example_manager ''6/16/2023, 4:50:45 PM-2465'' = Some example_info"
    by (simp add: example_manager_def)
  from C10_remove [OF a [of delete_fails]] C10_remove [OF a [of all_succeed]] a p
  show ?thesis
    by (auto simp: delete_fails_def all_succeed_def)
qed

text \<open>
  C7. \<^verbatim>\<open>getStackTrace\<close> should remove the temporary core file and the temporary
  command file on every path. When the debugger fails, the handler of the error
  removes the temporary core file only: the command file written for the debugger
  is still there when the operation has failed.
\<close>

theorem C7_command_file_left:
  "fst (getStackTrace example_runtime gdb_fails ''6/16/2023, 4:50:45 PM-2465'' example_manager)
     = Inl (McpError InternalError ''Failed to get stack trace: ''
             (Some (ExecaError ''Command failed: gdb'')))
   \<and> map fst (history (snd (getStackTrace example_runtime gdb_fails
         ''6/16/2023, 4:50:45 PM-2465'' example_manager)))
     = [CoredumpctlDump ''2465'' ''/tmp/core-2465-temp.dump'',
        WriteGdbCommands ''/tmp/gdb-commands.txt'',
        Gdb ''/tmp/gdb-commands.txt'' (Some (JStr ''/usr/bin/cuteime''))
          ''/tmp/core-2465-temp.dump'',
        Rm ''/tmp/core-2465-temp.dump'']
   \<and> files_left (history (snd (getStackTrace example_runtime gdb_fails
         ''6/16/2023, 4:50:45 PM-2465'' example_manager)))
     = {''/tmp/gdb-commands.txt''}"
  by code_simp

text \<open>On the path without an error both files are removed.\<close>

lemma success_removes_both_files:
  "files_left (history (snd (getStackTrace example_runtime all_succeed
      ''6/16/2023, 4:50:45 PM-2465'' example_manager))) = {}"
  by code_simp

text \<open>
  C8. Every \<^verbatim>\<open>getStackTrace\<close> query should extract the dump again and run the
  debugger on it, whatever an earlier query did. The first query for a record
  extracts the dump to its temporary file, records that file as the extracted path
  of the record and removes the file before it returns; the path stays recorded. A
  second query for the same id finds the path set, runs no extraction and starts
  the debugger on the file that the first query has removed.
\<close>

theorem C8_second_query_skips_extraction:
  "map_option coredump
     (coredumps (snd (getStackTrace example_runtime all_succeed ''6/16/2023, 4:50:45 PM-2465''
        example_manager)) ''6/16/2023, 4:50:45 PM-2465'')
     = Some (Some ''/tmp/core-2465-temp.dump'')
   \<and> files_left (history (snd (getStackTrace example_runtime all_succeed
         ''6/16/2023, 4:50:45 PM-2465'' example_manager))) = {}
   \<and> map fst (history (snd (getStackTrace example_runtime all_succeed
         ''6/16/2023, 4:50:45 PM-2465''
         (snd (getStackTrace example_runtime all_succeed ''6/16/2023, 4:50:45 PM-2465''
                 example_manager)))))
     = [CoredumpctlDump ''2465'' ''/tmp/core-2465-temp.dump'',
        WriteGdbCommands ''/tmp/gdb-commands.txt'',
        Gdb ''/tmp/gdb-commands.txt'' (Some (JStr ''/usr/bin/cuteime''))
          ''/tmp/core-2465-temp.dump'',
        Rm ''/tmp/core-2465-temp.dump'',
        Rm ''/tmp/gdb-commands.txt'',
        WriteGdbCommands ''/tmp/gdb-commands.txt'',
        Gdb ''/tmp/gdb-commands.txt'' (Some (JStr ''/usr/bin/cuteime''))
          ''/tmp/core-2465-temp.dump'',
        Rm ''/tmp/gdb-commands.txt'']"
  by code_simp

text \<open>
  A path that \<^verbatim>\<open>extractCoredump\<close> has recorded is reused as well; there the file
  exists, and the guard \<^verbatim>\<open>if (!coredump.coredump)\<close> is what skips the extraction.
\<close>

lemma extracted_path_is_reused:
  "map fst (history (snd (getStackTrace example_runtime all_succeed ''6/16/2023, 4:50:45 PM-2465''
      (snd (extractCoredump example_runtime all_succeed ''6/16/2023, 4:50:45 PM-2465''
              ''/home/user/core.dump'' example_manager)))))
   = [CoredumpctlDump ''2465'' ''/home/user/core.dump'',
      WriteGdbCommands ''/tmp/gdb-commands.txt'',
      Gdb ''/tmp/gdb-commands.txt'' (Some (JStr ''/usr/bin/cuteime'')) ''/home/user/core.dump'',
      Rm ''/tmp/gdb-commands.txt'']"
  by code_simp

section \<open>Properties of the tool handler\<close>

text \<open>
  C9. A call of \<^verbatim>\<open>get_coredump_info\<close>, \<^verbatim>\<open>extract_coredump\<close> or
  \<^verbatim>\<open>get_stacktrace\<close> without the required \<^verbatim>\<open>id\<close> (or, for \<^verbatim>\<open>extract_coredump\<close>,
  without \<^verbatim>\<open>outputPath\<close>) should fail with \<^verbatim>\<open>InvalidParams\<close> before the registry
  or any command is touched. The handler converts the argument with \<^verbatim>\<open>String\<close>
  before it tests it, and \<^verbatim>\<open>String(undefined)\<close> is the non-empty text
  \<^verbatim>\<open>undefined\<close>: without an id the handler looks up the id \<^verbatim>\<open>undefined\<close> and runs
  the listing command; without an output path it extracts the dump to a file named
  \<^verbatim>\<open>undefined\<close> and reports success.
\<close>

theorem C9_missing_arguments_pass:
  "fst (call_tool example_runtime no_dumps missing_id empty_manager)
     = Inl (McpError InvalidParams ''Coredump with ID undefined not found'' None)
   \<and> history (snd (call_tool example_runtime no_dumps missing_id empty_manager))
     = [(CoredumpctlList, Inr ''[]'')]
   \<and> fst (call_tool example_runtime all_succeed missing_path example_manager)
     = Inr \<lparr> body = Text ''Coredump extracted to: undefined'', isError = False \<rparr>
   \<and> history (snd (call_tool example_runtime all_succeed missing_path example_manager))
     = [(CoredumpctlDump ''2465'' ''undefined'', Inr [])]"
  by code_simp

text \<open>The test for an empty id rejects the empty string only.\<close>

lemma empty_id_rejected:
  "call_tool rt ex \<lparr> name = ''get_coredump_info'', arguments = Some [''id'' \<mapsto> JStr []] \<rparr> s
     = (Inl (McpError InvalidParams ''Coredump ID is required'' None), s)"
  by (simp add: call_tool_def argument_def String_def template_def required_def)

end
